theory Spec2Isabelle
  imports Main "HOL-Library.Sublist"
begin

section \<open>The service worker of the Solo Leveling System (service-worker.js)\<close>

text \<open>
  The worker is a set of event listeners over three platform objects: the cache storage
  (\<^verbatim>\<open>caches\<close>), the network (\<^verbatim>\<open>fetch\<close>) and the client windows (\<^verbatim>\<open>clients\<close>).
  The cache storage is explicit state passed through every listener. The network and the
  outcome of the storage's write operations are parameters of the model (the record
  \<open>env\<close>): a listener is a function of the environment it meets. Each listener returns
  the value its promise chain settles with, the storage afterwards and the list of the
  platform calls it made, in the order it made them.
\<close>

subsection \<open>Strings\<close>

text \<open>\<^verbatim>\<open>s.startsWith(p)\<close> and \<^verbatim>\<open>s.includes(sub)\<close> of JavaScript.\<close>

definition startsWith :: "string \<Rightarrow> string \<Rightarrow> bool" where
  "startsWith s p = prefix p s"

fun includes_str :: "string \<Rightarrow> string \<Rightarrow> bool" where
  "includes_str [] sub = (sub = [])"
| "includes_str (c # cs) sub = (prefix sub (c # cs) \<or> includes_str cs sub)"

subsection \<open>Requests, responses and the cache storage\<close>

record request =
  method_name :: string
  url :: string
  mode :: string

record response =
  body :: string
  status :: nat
  statusText :: string

text \<open>
  A cache maps the URL of a GET request to the stored response; the cache storage is the
  list of the named caches in the order of their creation, which is the order
  \<^verbatim>\<open>caches.keys()\<close> reports and \<^verbatim>\<open>caches.match\<close> searches.
\<close>

type_synonym cache = "(string \<times> response) list"
type_synonym cache_storage = "(string \<times> cache) list"

definition caches_keys :: "cache_storage \<Rightarrow> string list" where
  "caches_keys cs = map fst cs"

text \<open>\<^verbatim>\<open>caches.open(name)\<close> creates the cache when there is none of that name.\<close>

definition caches_open :: "string \<Rightarrow> cache_storage \<Rightarrow> cache_storage" where
  "caches_open name cs = (if name \<in> set (caches_keys cs) then cs else cs @ [(name, [])])"

definition caches_delete :: "string \<Rightarrow> cache_storage \<Rightarrow> cache_storage" where
  "caches_delete name cs = filter (\<lambda>nc. fst nc \<noteq> name) cs"

text \<open>
  The Cache API compares the URL of a request with the URL of a stored one without their
  fragments. \<^verbatim>\<open>cache.match(request)\<close> is the first stored entry that matches, and
  \<^verbatim>\<open>caches.match(request)\<close> the match of the first cache, in creation order, that has
  one.
\<close>

definition without_fragment :: "string \<Rightarrow> string" where
  "without_fragment u = takeWhile (\<lambda>c. c \<noteq> CHR ''#'') u"

fun cache_match :: "cache \<Rightarrow> string \<Rightarrow> response option" where
  "cache_match [] u = None"
| "cache_match (kv # c) u =
     (if without_fragment (fst kv) = without_fragment u then Some (snd kv) else cache_match c u)"

fun caches_match :: "cache_storage \<Rightarrow> string \<Rightarrow> response option" where
  "caches_match [] u = None"
| "caches_match (nc # cs) u =
     (case cache_match (snd nc) u of Some r \<Rightarrow> Some r | None \<Rightarrow> caches_match cs u)"

text \<open>
  \<^verbatim>\<open>cache.put(request, response)\<close> on the cache of that name replaces the entries that
  match the request: last write wins.
\<close>

definition cache_put :: "string \<Rightarrow> string \<Rightarrow> response \<Rightarrow> cache_storage \<Rightarrow> cache_storage" where
  "cache_put name u r cs =
     map (\<lambda>nc. if fst nc = name
                then (fst nc,
                      (u, r) # filter (\<lambda>kv. without_fragment (fst kv) \<noteq> without_fragment u) (snd nc))
                else nc) cs"

text \<open>
  A string given where a request is expected (\<^verbatim>\<open>'/index.html'\<close>, the entries of the
  install manifest) is resolved against the worker's own location.
\<close>

definition resolve :: "string \<Rightarrow> string \<Rightarrow> string" where
  "resolve org s = (if startsWith s ''/'' then org @ s else s)"

subsection \<open>Environment, errors, effects\<close>

record env =
  origin :: string
  network :: "string \<Rightarrow> response option"
  open_ok :: bool
  put_ok :: bool

text \<open>
  \<open>origin\<close> is \<^verbatim>\<open>self.location.origin\<close>. \<open>network u\<close> is what \<^verbatim>\<open>fetch\<close> settles with
  for the URL \<open>u\<close>: \<open>None\<close> when it rejects. \<open>open_ok\<close> and \<open>put_ok\<close> say whether
  \<^verbatim>\<open>caches.open\<close> and \<^verbatim>\<open>cache.put\<close> resolve (they reject when the quota is exceeded
  or the storage is unavailable). Lookups and deletions always resolve.
\<close>

datatype error = NetworkError | CacheOpenError | QuotaExceededError | SyntaxError | TypeError

text \<open>The options object the push listener passes to \<^verbatim>\<open>showNotification\<close>.\<close>

record notification_options =
  opt_body :: string
  opt_icon :: string
  opt_badge :: string
  opt_vibrate :: "nat list"
  opt_data_url :: string
  opt_actions :: "(string \<times> string) list"

text \<open>
  The platform calls a listener makes. \<open>WaitUntil\<close> records that the listener handed a
  promise to \<^verbatim>\<open>event.waitUntil\<close>.
\<close>

datatype effect =
    NetFetch string
  | CachePut string string
  | CacheDelete string
  | SkipWaiting
  | ClientsClaim
  | WaitUntil
  | ShowNotification string notification_options
  | NotificationClose
  | ClientFocus string
  | OpenWindow string

text \<open>What a promise handed to \<^verbatim>\<open>event.waitUntil\<close> settles with.\<close>

datatype settled = Fulfilled | Rejected error

record 'a outcome =
  ret :: 'a
  store :: cache_storage
  trace :: "effect list"

subsection \<open>Constants of the script\<close>

definition CACHE_NAME :: string where
  "CACHE_NAME = ''solo-leveling-v1.0.0''"

definition ASSETS_TO_CACHE :: "string list" where
  "ASSETS_TO_CACHE =
     [''/'',
      ''/index.html'',
      ''/manifest.json'',
      ''https://fonts.googleapis.com/css2?family=Inter:wght@400;500;600;700&display=swap'',
      ''https://cdnjs.cloudflare.com/ajax/libs/jspdf/2.5.1/jspdf.umd.min.js'']"

subsection \<open>fetchAndCache\<close>

text \<open>The condition under which \<open>fetchAndCache\<close> calls \<^verbatim>\<open>cache.put\<close>.\<close>

definition eligible :: "string \<Rightarrow> string \<Rightarrow> bool" where
  "eligible org u \<longleftrightarrow>
     startsWith u org \<or>
     includes_str u ''fonts.googleapis.com'' \<or>
     includes_str u ''fonts.gstatic.com'' \<or>
     includes_str u ''cdnjs.cloudflare.com''"

text \<open>
  The \<^verbatim>\<open>catch\<close> block of \<open>fetchAndCache\<close>: it runs for whatever the \<^verbatim>\<open>try\<close> block
  threw, looks the request up and rethrows when nothing is stored.
\<close>

definition fetchAndCache_catch ::
  "error \<Rightarrow> cache_storage \<Rightarrow> request \<Rightarrow> effect list \<Rightarrow> (error + response) outcome" where
  "fetchAndCache_catch err cs req tr =
     (case caches_match cs (url req) of
        Some cachedResponse \<Rightarrow> \<lparr>ret = Inr cachedResponse, store = cs, trace = tr\<rparr>
      | None \<Rightarrow> \<lparr>ret = Inl err, store = cs, trace = tr\<rparr>)"

text \<open>
  The \<^verbatim>\<open>try\<close> block awaits \<^verbatim>\<open>fetch\<close> and, for a status of 200, \<^verbatim>\<open>caches.open\<close>;
  either rejection enters the \<^verbatim>\<open>catch\<close> block. \<^verbatim>\<open>cache.put\<close> is not awaited: when it
  rejects, the storage stays as it is and the function returns the response all the same.
\<close>

definition fetchAndCache :: "env \<Rightarrow> cache_storage \<Rightarrow> request \<Rightarrow> (error + response) outcome" where
  "fetchAndCache e cs req =
     (case network e (url req) of
        None \<Rightarrow> fetchAndCache_catch NetworkError cs req [NetFetch (url req)]
      | Some resp \<Rightarrow>
          if status resp = 200 then
            if open_ok e then
              let cs1 = caches_open CACHE_NAME cs in
              if eligible (origin e) (url req) then
                \<lparr>ret = Inr resp,
                 store = (if put_ok e then cache_put CACHE_NAME (url req) resp cs1 else cs1),
                 trace = [NetFetch (url req), CachePut CACHE_NAME (url req)]\<rparr>
              else \<lparr>ret = Inr resp, store = cs1, trace = [NetFetch (url req)]\<rparr>
            else fetchAndCache_catch CacheOpenError cs req [NetFetch (url req)]
          else \<lparr>ret = Inr resp, store = cs, trace = [NetFetch (url req)]\<rparr>)"

subsection \<open>The fetch listener\<close>

text \<open>
  \<open>NotIntercepted\<close>: the listener returned without calling \<^verbatim>\<open>event.respondWith\<close>.
  \<open>Responded r\<close>: the promise given to \<^verbatim>\<open>respondWith\<close> resolved with \<open>r\<close>, where
  \<open>None\<close> is \<^verbatim>\<open>undefined\<close> (a lookup that found nothing).
\<close>

datatype respond = NotIntercepted | Responded "response option"

definition offline_response :: response where
  "offline_response = \<lparr>body = '''', status = 408, statusText = ''Offline''\<rparr>"

text \<open>
  The \<^verbatim>\<open>.then\<close> callback on \<^verbatim>\<open>caches.match(event.request)\<close>. With a stored entry the
  call of \<open>fetchAndCache\<close> is not awaited: its value is dropped, and only what it does to
  the storage and the calls it makes remain.
\<close>

definition pipeline :: "env \<Rightarrow> cache_storage \<Rightarrow> request \<Rightarrow> (error + response) outcome" where
  "pipeline e cs req =
     (case caches_match cs (url req) of
        Some cachedResponse \<Rightarrow>
          (let refresh = fetchAndCache e cs req
           in \<lparr>ret = Inr cachedResponse, store = store refresh, trace = trace refresh\<rparr>)
      | None \<Rightarrow> fetchAndCache e cs req)"

definition fetch_listener :: "env \<Rightarrow> cache_storage \<Rightarrow> request \<Rightarrow> respond outcome" where
  "fetch_listener e cs req =
     (if method_name req \<noteq> ''GET'' then \<lparr>ret = NotIntercepted, store = cs, trace = []\<rparr>
      else if \<not> startsWith (url req) ''http'' then \<lparr>ret = NotIntercepted, store = cs, trace = []\<rparr>
      else
        (let p = pipeline e cs req in
         case ret p of
           Inr r \<Rightarrow> \<lparr>ret = Responded (Some r), store = store p, trace = trace p\<rparr>
         | Inl err \<Rightarrow>
             if mode req = ''navigate''
             then \<lparr>ret = Responded (caches_match (store p) (resolve (origin e) ''/index.html'')),
                   store = store p, trace = trace p\<rparr>
             else \<lparr>ret = Responded (Some offline_response), store = store p, trace = trace p\<rparr>))"

subsection \<open>The install listener\<close>

text \<open>
  \<^verbatim>\<open>cache.addAll(urls)\<close> of the platform: it fetches every URL and stores the responses
  only when every fetch resolved with an ok status (200 to 299) other than 206; otherwise
  it rejects with a TypeError and stores nothing. It rejects as well, and stores nothing, when the
  responses cannot be written.
\<close>

definition response_ok :: "response \<Rightarrow> bool" where
  "response_ok r \<longleftrightarrow> 200 \<le> status r \<and> status r < 300"

definition cache_addAll :: "env \<Rightarrow> string \<Rightarrow> string list \<Rightarrow> cache_storage \<Rightarrow> (error + unit) outcome" where
  "cache_addAll e name urls cs =
     (let us = map (resolve (origin e)) urls in
      case those (map (network e) us) of
        None \<Rightarrow> \<lparr>ret = Inl TypeError, store = cs, trace = map NetFetch us\<rparr>
      | Some rs \<Rightarrow>
          if \<not> list_all (\<lambda>r. response_ok r \<and> status r \<noteq> 206) rs
          then \<lparr>ret = Inl TypeError, store = cs, trace = map NetFetch us\<rparr>
          else if \<not> put_ok e
          then \<lparr>ret = Inl QuotaExceededError, store = cs,
                trace = map NetFetch us @ map (CachePut name) us\<rparr>
          else \<lparr>ret = Inr (),
                store = fold (\<lambda>ur. cache_put name (fst ur) (snd ur)) (zip us rs) cs,
                trace = map NetFetch us @ map (CachePut name) us\<rparr>)"

text \<open>
  The handler of the chain's final \<^verbatim>\<open>.catch\<close>: it logs the error and returns nothing,
  so the promise it yields is fulfilled.
\<close>

definition install_catch :: "error \<Rightarrow> settled" where
  "install_catch err = Fulfilled"

text \<open>
  \<open>ret\<close> is what the promise handed to \<^verbatim>\<open>event.waitUntil\<close> settles with: the platform
  takes the installation as failed exactly when that promise is rejected.
\<close>

definition install_listener :: "env \<Rightarrow> cache_storage \<Rightarrow> settled outcome" where
  "install_listener e cs =
     (if open_ok e then
        (let added = cache_addAll e CACHE_NAME ASSETS_TO_CACHE (caches_open CACHE_NAME cs) in
         case ret added of
           Inr _ \<Rightarrow> \<lparr>ret = Fulfilled, store = store added, trace = trace added @ [SkipWaiting]\<rparr>
         | Inl err \<Rightarrow> \<lparr>ret = install_catch err, store = store added, trace = trace added\<rparr>)
      else \<lparr>ret = install_catch CacheOpenError, store = cs, trace = []\<rparr>)"

subsection \<open>The activate listener\<close>

definition activate_listener :: "cache_storage \<Rightarrow> settled outcome" where
  "activate_listener cs =
     (let old = filter (\<lambda>cacheName. cacheName \<noteq> CACHE_NAME) (caches_keys cs)
      in \<lparr>ret = Fulfilled,
          store = fold caches_delete old cs,
          trace = map CacheDelete old @ [ClientsClaim]\<rparr>)"

subsection \<open>The message listener\<close>

record message =
  msg_type :: string

text \<open>\<^verbatim>\<open>event.data && event.data.type === t\<close>; \<open>None\<close> is a message without data.\<close>

definition data_type_is :: "message option \<Rightarrow> string \<Rightarrow> bool" where
  "data_type_is d t = (case d of None \<Rightarrow> False | Some m \<Rightarrow> msg_type m = t)"

definition message_listener :: "message option \<Rightarrow> cache_storage \<Rightarrow> unit outcome" where
  "message_listener d cs =
     \<lparr>ret = (),
      store = (if data_type_is d ''CLEAR_CACHE'' then caches_delete CACHE_NAME cs else cs),
      trace = (if data_type_is d ''SKIP_WAITING'' then [SkipWaiting] else []) @
              (if data_type_is d ''CLEAR_CACHE'' then [CacheDelete CACHE_NAME] else [])\<rparr>"

subsection \<open>The push listener\<close>

text \<open>
  The payload of a push event, by what \<^verbatim>\<open>event.data.json()\<close> does with it: it throws
  a SyntaxError on text that is not JSON, and otherwise returns the parsed value. Of a
  parsed value the listener reads the properties title, body and url only: \<open>JsonObject\<close>
  lists the string properties of an object, \<open>JsonOther\<close> is a number, string, boolean or
  array (those properties are undefined on it), \<open>JsonNull\<close> is null (reading a property of
  it throws a TypeError).
\<close>

datatype json_value = JsonNull | JsonOther | JsonObject "(string \<times> string) list"

datatype push_data = NotJson | Json json_value

definition json :: "push_data \<Rightarrow> error + json_value" where
  "json d = (case d of NotJson \<Rightarrow> Inl SyntaxError | Json v \<Rightarrow> Inr v)"

definition property :: "json_value \<Rightarrow> string \<Rightarrow> error + string option" where
  "property v k =
     (case v of
        JsonNull \<Rightarrow> Inl TypeError
      | JsonOther \<Rightarrow> Inr None
      | JsonObject props \<Rightarrow> Inr (map_of props k))"

text \<open>\<^verbatim>\<open>x || d\<close> on an optional string: undefined and the empty string are falsy.\<close>

definition or_default :: "string option \<Rightarrow> string \<Rightarrow> string" where
  "or_default x d = (case x of None \<Rightarrow> d | Some s \<Rightarrow> if s = [] then d else s)"

definition push_listener :: "push_data option \<Rightarrow> (error + unit) \<times> effect list" where
  "push_listener event_data =
     (case event_data of
        None \<Rightarrow> (Inr (), [])
      | Some d \<Rightarrow>
          (case json d of
             Inl err \<Rightarrow> (Inl err, [])
           | Inr v \<Rightarrow>
               (case (property v ''body'', property v ''url'', property v ''title'') of
                  (Inr b, Inr u, Inr t) \<Rightarrow>
                    (Inr (),
                     [ShowNotification (or_default t ''Solo Leveling System'')
                        \<lparr>opt_body = or_default b ''Time to study!'',
                         opt_icon = ''/icon-192.png'',
                         opt_badge = ''/icon-192.png'',
                         opt_vibrate = [100, 50, 100],
                         opt_data_url = or_default u ''/'',
                         opt_actions = [(''open'', ''Open App''), (''dismiss'', ''Dismiss'')]\<rparr>,
                      WaitUntil])
                | _ \<Rightarrow> (Inl TypeError, []))))"

subsection \<open>The notificationclick listener\<close>

text \<open>
  A click event carries the action (the empty string for a click on the notification's
  body) and the notification, of which the listener reads \<^verbatim>\<open>data.url\<close>: \<open>NoData\<close> is a
  notification whose \<^verbatim>\<open>data\<close> is null (reading \<^verbatim>\<open>data.url\<close> throws a TypeError),
  \<open>Data u\<close> one with a data object whose url is \<open>u\<close>, \<open>None\<close> when it has none. The
  platform side is the list of the URLs of the window clients that \<^verbatim>\<open>clients.matchAll\<close>
  reports (every one of them is a WindowClient, so \<^verbatim>\<open>'focus' in client\<close> holds) and
  whether \<^verbatim>\<open>clients.openWindow\<close> is defined.
\<close>

datatype notification_data = NoData | Data "string option"

record click_event =
  action :: string
  ndata :: notification_data

text \<open>The notification that \<^verbatim>\<open>showNotification(title, options)\<close> displays keeps \<^verbatim>\<open>options.data\<close>.\<close>

definition clicked :: "string \<Rightarrow> notification_options \<Rightarrow> click_event" where
  "clicked a opts = \<lparr>action = a, ndata = Data (Some (opt_data_url opts))\<rparr>"

text \<open>
  The listener returns what the promise handed to \<^verbatim>\<open>event.waitUntil\<close> settles with
  (\<open>None\<close> when it hands none) and its platform calls. The loop over the clients comes
  first; \<^verbatim>\<open>event.notification.data.url\<close> is read only when no client was focused and
  \<^verbatim>\<open>clients.openWindow\<close> is defined, and a TypeError thrown there rejects the promise.
\<close>

definition notificationclick_listener ::
  "string \<Rightarrow> bool \<Rightarrow> string list \<Rightarrow> click_event \<Rightarrow> settled option \<times> effect list" where
  "notificationclick_listener org openWindow_defined clientList ev =
     (if action ev = ''open'' \<or> action ev = [] then
        (case find (\<lambda>client_url. includes_str client_url org) clientList of
           Some client_url \<Rightarrow>
             (Some Fulfilled, [NotificationClose, WaitUntil, ClientFocus client_url])
         | None \<Rightarrow>
             if openWindow_defined then
               (case ndata ev of
                  NoData \<Rightarrow> (Some (Rejected TypeError), [NotificationClose, WaitUntil])
                | Data u \<Rightarrow>
                    (Some Fulfilled,
                     [NotificationClose, WaitUntil, OpenWindow (or_default u ''/'')]))
             else (Some Fulfilled, [NotificationClose, WaitUntil]))
      else (None, [NotificationClose]))"

subsection \<open>The Eligibility Set as the specification words it\<close>

text \<open>
  The specification calls the Eligibility Set an allowlist of origins and hosts: the app's
  own origin and the hosts fonts.googleapis.com, fonts.gstatic.com and
  cdnjs.cloudflare.com. The following definitions read origin and host off an absolute
  URL \<open>scheme://authority/path?query#fragment\<close>; they belong to the specification's
  side and are compared with \<open>eligible\<close>, the test the code makes.
\<close>

fun url_authority :: "string \<Rightarrow> string" where
  "url_authority [] = []"
| "url_authority (c # cs) =
     (if prefix ''://'' (c # cs)
      then takeWhile (\<lambda>x. x \<notin> set ''/?#'') (drop 3 (c # cs))
      else url_authority cs)"

fun url_origin :: "string \<Rightarrow> string" where
  "url_origin [] = []"
| "url_origin (c # cs) =
     (if prefix ''://'' (c # cs)
      then ''://'' @ takeWhile (\<lambda>x. x \<notin> set ''/?#'') (drop 3 (c # cs))
      else c # url_origin cs)"

text \<open>The host is the authority without the user information and without the port.\<close>

definition url_host :: "string \<Rightarrow> string" where
  "url_host u =
     takeWhile (\<lambda>x. x \<noteq> CHR '':'')
       (rev (takeWhile (\<lambda>x. x \<noteq> CHR ''@'') (rev (url_authority u))))"

definition url_scheme :: "string \<Rightarrow> string" where
  "url_scheme u = takeWhile (\<lambda>x. x \<noteq> CHR '':'') u"

text \<open>
  The platform dispatches a fetch event for a URL of the scheme http or https and, in
  some browsers, for a URL of a browser extension (chrome-extension, moz-extension); it
  dispatches none for any other scheme, so no dispatched URL has a scheme that begins with
  the letters http and is neither http nor https.
\<close>

definition dispatched :: "string \<Rightarrow> bool" where
  "dispatched u \<longleftrightarrow>
     url_scheme u = ''http'' \<or> url_scheme u = ''https'' \<or> \<not> startsWith (url_scheme u) ''http''"

definition in_Eligibility_Set :: "string \<Rightarrow> string \<Rightarrow> bool" where
  "in_Eligibility_Set org u \<longleftrightarrow>
     url_origin u = org \<or>
     url_host u = ''fonts.googleapis.com'' \<or>
     url_host u = ''fonts.gstatic.com'' \<or>
     url_host u = ''cdnjs.cloudflare.com''"

subsection \<open>Example environments\<close>

definition fresh :: response where
  "fresh = \<lparr>body = ''fresh'', status = 200, statusText = ''OK''\<rparr>"

definition stale :: response where
  "stale = \<lparr>body = ''stale'', status = 200, statusText = ''OK''\<rparr>"

definition shell :: response where
  "shell = \<lparr>body = ''<html>'', status = 200, statusText = ''OK''\<rparr>"

definition online :: env where
  "online = \<lparr>origin = ''https://app.example'', network = (\<lambda>u. Some fresh),
             open_ok = True, put_ok = True\<rparr>"

definition offline :: env where
  "offline = \<lparr>origin = ''https://app.example'', network = (\<lambda>u. None),
              open_ok = True, put_ok = True\<rparr>"

definition storage_unavailable :: env where
  "storage_unavailable = \<lparr>origin = ''https://app.example'', network = (\<lambda>u. Some fresh),
                          open_ok = False, put_ok = False\<rparr>"

definition manifest_unreachable :: env where
  "manifest_unreachable =
     \<lparr>origin = ''https://app.example'',
      network = (\<lambda>u. if u = ''https://app.example/manifest.json'' then None else Some fresh),
      open_ok = True, put_ok = True\<rparr>"

definition get :: "string \<Rightarrow> string \<Rightarrow> request" where
  "get u m = \<lparr>method_name = ''GET'', url = u, mode = m\<rparr>"

section \<open>Properties\<close>

subsection \<open>Stale-while-revalidate\<close>




text \<open>A request is served from the entry stored without its fragment.\<close>

lemma fragment_ignored:
  "ret (fetch_listener offline [(CACHE_NAME, [(''https://app.example/a.js'', stale)])]
          (get ''https://app.example/a.js#top'' ''no-cors'')) = Responded (Some stale)"
  by (simp add: fetch_listener_def pipeline_def get_def startsWith_def without_fragment_def
      Let_def)

subsection \<open>The fallback of the fetch listener\<close>

lemma pipeline_failure_keeps_store:
  "ret (pipeline e cs req) = Inl err \<Longrightarrow> store (pipeline e cs req) = cs"
  by (auto simp: pipeline_def fetchAndCache_def fetchAndCache_catch_def Let_def
      split: option.splits if_splits)

text \<open>
  C2, as stated, fails for a navigation when no cache holds the app shell: after a
  \<^verbatim>\<open>CLEAR_CACHE\<close> message has deleted the current generation, a navigation that fails
  on the network is answered with \<^verbatim>\<open>undefined\<close>, the result of the lookup of
  \<^verbatim>\<open>/index.html\<close>, and not with a document.
\<close>

theorem C2_no_cached_shell_counterexample:
  "ret (pipeline offline
          (store (message_listener (Some \<lparr>msg_type = ''CLEAR_CACHE''\<rparr>)
                    [(CACHE_NAME, [(''https://app.example/index.html'', shell)])]))
          (get ''https://app.example/profile'' ''navigate'')) = Inl NetworkError
   \<and> ret (fetch_listener offline
          (store (message_listener (Some \<lparr>msg_type = ''CLEAR_CACHE''\<rparr>)
                    [(CACHE_NAME, [(''https://app.example/index.html'', shell)])]))
          (get ''https://app.example/profile'' ''navigate'')) = Responded None"
  by (simp add: message_listener_def data_type_is_def caches_delete_def fetch_listener_def
      pipeline_def fetchAndCache_def fetchAndCache_catch_def offline_def get_def startsWith_def)

text \<open>
  C2, amended. When the pipeline of an intercepted request fails, the listener responds,
  if the request's mode is navigate, with what the lookup of \<^verbatim>\<open>/index.html\<close> in the
  cache storage gives (the cached app shell document when one is stored, nothing when
  none is), and otherwise with a response of empty body, status 408 and status text
  Offline.
\<close>

theorem C2_failure_fallback:
  assumes "method_name req = ''GET''" and "startsWith (url req) ''http''"
    and "ret (pipeline e cs req) = Inl err"
  shows "ret (fetch_listener e cs req) =
         Responded (if mode req = ''navigate''
                    then caches_match cs (resolve (origin e) ''/index.html'')
                    else Some \<lparr>body = '''', status = 408, statusText = ''Offline''\<rparr>)"
  using assms pipeline_failure_keeps_store [OF assms(3)]
  by (simp add: fetch_listener_def Let_def offline_response_def)

theorem C2_failure_fallback_witness:
  "ret (pipeline offline [(CACHE_NAME, [(''https://app.example/index.html'', shell)])]
          (get ''https://app.example/profile'' ''navigate'')) = Inl NetworkError
   \<and> ret (fetch_listener offline [(CACHE_NAME, [(''https://app.example/index.html'', shell)])]
          (get ''https://app.example/profile'' ''navigate'')) = Responded (Some shell)"
proof -
  have p: "ret (pipeline offline [(CACHE_NAME, [(''https://app.example/index.html'', shell)])]
          (get ''https://app.example/profile'' ''navigate'')) = Inl NetworkError"
    by (simp add: pipeline_def fetchAndCache_def fetchAndCache_catch_def offline_def get_def
        without_fragment_def)
  show ?thesis
    using p C2_failure_fallback [OF _ _ p]
    by (simp add: get_def startsWith_def offline_def resolve_def without_fragment_def)
qed

lemma offline_fallback_not_navigation:
  "ret (fetch_listener offline [] (get ''https://app.example/data.json'' ''cors''))
     = Responded (Some \<lparr>body = '''', status = 408, statusText = ''Offline''\<rparr>)"
  by (simp add: fetch_listener_def pipeline_def fetchAndCache_def fetchAndCache_catch_def
      offline_def get_def startsWith_def offline_response_def)

subsection \<open>Which requests are written to the cache\<close>

text \<open>The listener calls \<^verbatim>\<open>cache.put\<close> only after a status of 200 and when \<open>eligible\<close> holds.\<close>

lemma fetch_listener_put_only_if:
  assumes "CachePut n u \<in> set (trace (fetch_listener e cs req))"
  shows "n = CACHE_NAME \<and> u = url req \<and> eligible (origin e) (url req)
       \<and> (\<exists>r. network e (url req) = Some r \<and> status r = 200)"
  using assms
  by (auto simp: fetch_listener_def pipeline_def fetchAndCache_def fetchAndCache_catch_def Let_def
      split: option.splits if_splits sum.splits)

text \<open>
  Everything in the Eligibility Set passes the code's test, so the code writes what the
  specification allows and, by the example below, more.
\<close>

lemma includes_str_sublist: "includes_str s sub \<longleftrightarrow> sublist sub s"
  by (induction s) (auto simp: sublist_Cons_right)

lemma startsWith_includes_str: "startsWith s p \<Longrightarrow> includes_str s p"
  by (simp add: startsWith_def includes_str_sublist prefix_imp_sublist)

lemma prefix_url_origin: "prefix (url_origin u) u"
proof (induction u)
  case Nil
  then show ?case by simp
next
  case (Cons c cs)
  show ?case
  proof (cases "prefix ''://'' (c # cs)")
    case True
    then obtain r where r: "c # cs = ''://'' @ r" by (auto elim: prefixE)
    have "prefix (takeWhile (\<lambda>x. x \<notin> set ''/?#'') r) r"
      by (metis takeWhile_dropWhile_id prefixI)
    then have "prefix (''://'' @ takeWhile (\<lambda>x. x \<notin> set ''/?#'') r) (''://'' @ r)"
      by (simp only: same_prefix_prefix)
    moreover have "url_origin (c # cs) = ''://'' @ takeWhile (\<lambda>x. x \<notin> set ''/?#'') r"
      using True r by simp
    ultimately show ?thesis using r by simp
  next
    case False
    then have "url_origin (c # cs) = c # url_origin cs"
      by (simp only: url_origin.simps if_False)
    then show ?thesis using Cons by simp
  qed
qed

lemma sublist_url_authority: "sublist (url_authority u) u"
proof (induction u)
  case Nil
  then show ?case by simp
next
  case (Cons c cs)
  show ?case
  proof (cases "prefix ''://'' (c # cs)")
    case True
    then obtain r where r: "c # cs = ''://'' @ r" by (auto elim: prefixE)
    have "c # cs = ''://'' @ takeWhile (\<lambda>x. x \<notin> set ''/?#'') r @ dropWhile (\<lambda>x. x \<notin> set ''/?#'') r"
      using r by simp
    moreover have "url_authority (c # cs) = takeWhile (\<lambda>x. x \<notin> set ''/?#'') r"
      using True r by simp
    ultimately show ?thesis
      unfolding sublist_def by metis
  next
    case False
    then have "url_authority (c # cs) = url_authority cs"
      by (simp only: url_authority.simps if_False)
    then show ?thesis using Cons by (simp add: sublist_Cons_right)
  qed
qed

lemma sublist_url_host: "sublist (url_host u) u"
proof -
  let ?a = "url_authority u"
  let ?h = "rev (takeWhile (\<lambda>x. x \<noteq> CHR ''@'') (rev ?a))"
  have "suffix ?h ?a"
    by (metis prefixI suffix_to_prefix takeWhile_dropWhile_id rev_rev_ident)
  then have 1: "sublist ?h ?a" by (rule suffix_imp_sublist)
  have "prefix (url_host u) ?h"
    unfolding url_host_def by (metis takeWhile_dropWhile_id prefixI)
  then have 2: "sublist (url_host u) ?h" by (rule prefix_imp_sublist)
  from 2 1 sublist_url_authority show ?thesis
    by (meson sublist_order.order.trans)
qed

lemma Eligibility_Set_eligible: "in_Eligibility_Set org u \<Longrightarrow> eligible org u"
  using prefix_url_origin [of u] sublist_url_host [of u]
  by (auto simp: in_Eligibility_Set_def eligible_def startsWith_def includes_str_sublist)

text \<open>
  C3. The claim does not hold of the code: \<open>eligible\<close> tests whether the URL contains one
  of the host names anywhere, not whether its host is one of them. The URL
  \<^verbatim>\<open>https://evil.example/fonts.gstatic.com\<close> has the host evil.example, which is outside the
  Eligibility Set; fetched with the mode cors, so that the worker reads the status 200 of
  the response, it is written to the current cache. (With the mode no-cors the response
  of another origin is opaque, its status is 0 and nothing is written.)
\<close>

theorem C3_write_outside_Eligibility_Set:
  "\<not> in_Eligibility_Set (origin online) ''https://evil.example/fonts.gstatic.com''
   \<and> network online ''https://evil.example/fonts.gstatic.com'' = Some fresh
   \<and> status fresh = 200
   \<and> CachePut CACHE_NAME ''https://evil.example/fonts.gstatic.com''
       \<in> set (trace (fetch_listener online [] (get ''https://evil.example/fonts.gstatic.com'' ''cors'')))
   \<and> caches_match (store (fetch_listener online [] (get ''https://evil.example/fonts.gstatic.com'' ''cors'')))
       ''https://evil.example/fonts.gstatic.com'' = Some fresh"
  by (simp add: in_Eligibility_Set_def url_host_def online_def get_def fetch_listener_def
      pipeline_def fetchAndCache_def startsWith_def eligible_def caches_open_def caches_keys_def
      cache_put_def fresh_def without_fragment_def Let_def)

subsection \<open>Activation\<close>

lemma fold_caches_delete:
  "fold caches_delete ns cs = filter (\<lambda>nc. fst nc \<notin> set ns) cs"
  by (induction ns arbitrary: cs) (auto simp: caches_delete_def intro: filter_cong)

lemma activate_store:
  "store (activate_listener cs) = filter (\<lambda>nc. fst nc = CACHE_NAME) cs"
  by (auto simp: activate_listener_def Let_def fold_caches_delete caches_keys_def intro: filter_cong)

lemma distinct_same_le_1:
  "distinct xs \<Longrightarrow> \<forall>x \<in> set xs. x = a \<Longrightarrow> length xs \<le> Suc 0"
  by (cases xs rule: list.exhaust; cases "tl xs") auto

text \<open>
  C4. After the activate listener (cache names are unique in the cache storage): every
  remaining cache is named CACHE_NAME, so at most one cache remains; the current cache is
  the one that was there before; and the listener's calls are the deletions of all the
  other caches followed, last, by \<^verbatim>\<open>clients.claim()\<close>.
\<close>

theorem C4_activate_single_generation:
  assumes "distinct (caches_keys cs)"
  shows "set (caches_keys (store (activate_listener cs))) \<subseteq> {CACHE_NAME}
       \<and> length (caches_keys (store (activate_listener cs))) \<le> 1
       \<and> map_of (store (activate_listener cs)) CACHE_NAME = map_of cs CACHE_NAME
       \<and> trace (activate_listener cs) =
           map CacheDelete (filter (\<lambda>n. n \<noteq> CACHE_NAME) (caches_keys cs)) @ [ClientsClaim]"
proof -
  let ?ks = "caches_keys (store (activate_listener cs))"
  have ks: "?ks = filter (\<lambda>n. n = CACHE_NAME) (caches_keys cs)"
    by (simp add: activate_store caches_keys_def filter_map comp_def)
  have sub: "set ?ks \<subseteq> {CACHE_NAME}"
    using ks by auto
  have "distinct ?ks"
    using assms ks by simp
  then have len: "length ?ks \<le> 1"
    using sub distinct_same_le_1 [of ?ks CACHE_NAME] by auto
  have kept: "map_of (store (activate_listener cs)) CACHE_NAME = map_of cs CACHE_NAME"
    unfolding activate_store by (induction cs) auto
  have tr: "trace (activate_listener cs) =
           map CacheDelete (filter (\<lambda>n. n \<noteq> CACHE_NAME) (caches_keys cs)) @ [ClientsClaim]"
    by (simp add: activate_listener_def Let_def)
  from sub len kept tr show ?thesis by blast
qed

theorem C4_activate_single_generation_witness:
  "distinct (caches_keys [(''solo-leveling-v0.9.0'', []), (CACHE_NAME, [(''https://app.example/'', shell)]), (''other'', [])])
   \<and> length (caches_keys (store (activate_listener [(''solo-leveling-v0.9.0'', []), (CACHE_NAME, [(''https://app.example/'', shell)]), (''other'', [])]))) \<le> 1
   \<and> map_of (store (activate_listener [(''solo-leveling-v0.9.0'', []), (CACHE_NAME, [(''https://app.example/'', shell)]), (''other'', [])])) CACHE_NAME
       = Some [(''https://app.example/'', shell)]
   \<and> trace (activate_listener [(''solo-leveling-v0.9.0'', []), (CACHE_NAME, [(''https://app.example/'', shell)]), (''other'', [])])
       = [CacheDelete ''solo-leveling-v0.9.0'', CacheDelete ''other'', ClientsClaim]"
proof -
  have d: "distinct (caches_keys [(''solo-leveling-v0.9.0'', []), (CACHE_NAME, [(''https://app.example/'', shell)]), (''other'', [])])"
    by (simp add: caches_keys_def CACHE_NAME_def)
  show ?thesis
    using d C4_activate_single_generation [OF d]
    by (simp add: caches_keys_def CACHE_NAME_def)
qed

subsection \<open>Which requests the fetch listener answers\<close>

lemma http_scheme_startsWith:
  "url_scheme u = ''http'' \<or> url_scheme u = ''https'' \<Longrightarrow> startsWith u ''http''"
proof -
  assume a: "url_scheme u = ''http'' \<or> url_scheme u = ''https''"
  have "prefix (url_scheme u) u"
    unfolding url_scheme_def by (metis takeWhile_dropWhile_id prefixI)
  with a show ?thesis
    unfolding startsWith_def by (auto elim!: prefixE)
qed

lemma startsWith_http_scheme:
  "startsWith u ''http'' \<Longrightarrow> startsWith (url_scheme u) ''http''"
proof -
  assume "startsWith u ''http''"
  then obtain r where "u = ''http'' @ r"
    unfolding startsWith_def by (auto elim: prefixE)
  then show ?thesis
    by (simp add: startsWith_def url_scheme_def)
qed

text \<open>The two guards of the listener: it answers exactly a GET request whose URL starts with http.\<close>

lemma fetch_listener_intercepts_iff:
  "ret (fetch_listener e cs req) \<noteq> NotIntercepted
     \<longleftrightarrow> method_name req = ''GET'' \<and> startsWith (url req) ''http''"
  by (simp add: fetch_listener_def Let_def split: sum.split)

lemma not_intercepted_untouched:
  "ret (fetch_listener e cs req) = NotIntercepted
     \<Longrightarrow> store (fetch_listener e cs req) = cs \<and> trace (fetch_listener e cs req) = []"
  using fetch_listener_intercepts_iff [of e cs req] by (auto simp: fetch_listener_def)

text \<open>
  C5. For the URL of a dispatched fetch event, the listener responds exactly to the
  requests whose method is GET and whose URL scheme is http or https; every other request
  (any other method, any other scheme, such as that of a browser extension) passes
  through: no response, no change of the storage, no platform call.
\<close>

theorem C5_responds_to_GET_http_only:
  assumes "dispatched (url req)"
  shows "(ret (fetch_listener e cs req) \<noteq> NotIntercepted
            \<longleftrightarrow> method_name req = ''GET''
                \<and> (url_scheme (url req) = ''http'' \<or> url_scheme (url req) = ''https''))
       \<and> (\<not> (method_name req = ''GET''
               \<and> (url_scheme (url req) = ''http'' \<or> url_scheme (url req) = ''https''))
            \<longrightarrow> ret (fetch_listener e cs req) = NotIntercepted
                \<and> store (fetch_listener e cs req) = cs
                \<and> trace (fetch_listener e cs req) = [])"
proof -
  have scheme: "startsWith (url req) ''http''
      \<longleftrightarrow> url_scheme (url req) = ''http'' \<or> url_scheme (url req) = ''https''"
  proof
    assume "startsWith (url req) ''http''"
    then have "startsWith (url_scheme (url req)) ''http''"
      by (rule startsWith_http_scheme)
    with assms show "url_scheme (url req) = ''http'' \<or> url_scheme (url req) = ''https''"
      unfolding dispatched_def by blast
  next
    assume "url_scheme (url req) = ''http'' \<or> url_scheme (url req) = ''https''"
    then show "startsWith (url req) ''http''"
      by (rule http_scheme_startsWith)
  qed
  have 1: "ret (fetch_listener e cs req) \<noteq> NotIntercepted
            \<longleftrightarrow> method_name req = ''GET''
                \<and> (url_scheme (url req) = ''http'' \<or> url_scheme (url req) = ''https'')"
    using fetch_listener_intercepts_iff [of e cs req] scheme by simp
  from 1 not_intercepted_untouched [of e cs req] show ?thesis by blast
qed

theorem C5_responds_to_GET_http_only_witness:
  "dispatched ''https://app.example/api''
   \<and> dispatched ''chrome-extension://abc/x.js''
   \<and> ret (fetch_listener online [] \<lparr>method_name = ''POST'', url = ''https://app.example/api'', mode = ''cors''\<rparr>) = NotIntercepted
   \<and> store (fetch_listener online [] \<lparr>method_name = ''POST'', url = ''https://app.example/api'', mode = ''cors''\<rparr>) = []
   \<and> trace (fetch_listener online [] \<lparr>method_name = ''POST'', url = ''https://app.example/api'', mode = ''cors''\<rparr>) = []
   \<and> ret (fetch_listener online [] (get ''chrome-extension://abc/x.js'' ''no-cors'')) = NotIntercepted
   \<and> ret (fetch_listener online [] (get ''https://app.example/api'' ''cors'')) \<noteq> NotIntercepted"
proof -
  have d1: "dispatched ''https://app.example/api''"
    by (simp add: dispatched_def url_scheme_def)
  have d2: "dispatched ''chrome-extension://abc/x.js''"
    by (simp add: dispatched_def url_scheme_def startsWith_def)
  have d1': "dispatched (url \<lparr>method_name = ''POST'', url = ''https://app.example/api'', mode = ''cors''\<rparr>)"
    using d1 by simp
  have d2': "dispatched (url (get ''chrome-extension://abc/x.js'' ''no-cors''))"
    using d2 by (simp add: get_def)
  have d3': "dispatched (url (get ''https://app.example/api'' ''cors''))"
    using d1 by (simp add: get_def)
  show ?thesis
    using d1 d2
      C5_responds_to_GET_http_only [OF d1', of online "[]"]
      C5_responds_to_GET_http_only [OF d2', of online "[]"]
      C5_responds_to_GET_http_only [OF d3', of online "[]"]
    by (simp add: get_def url_scheme_def)
qed

subsection \<open>Installation\<close>

lemma install_never_rejects: "ret (install_listener e cs) = Fulfilled"
  by (simp add: install_listener_def install_catch_def Let_def split: sum.split)

text \<open>
  C6. The claim does not hold of the code: the chain handed to \<^verbatim>\<open>event.waitUntil\<close>
  ends in a \<^verbatim>\<open>.catch\<close> that logs and does not rethrow. When the manifest file cannot be
  fetched, \<^verbatim>\<open>addAll\<close> rejects, yet the promise is fulfilled: the platform is told that
  the installation succeeded, and the current generation exists, empty.
\<close>

theorem C6_install_failure_swallowed:
  "network manifest_unreachable (resolve (origin manifest_unreachable) ''/manifest.json'') = None
   \<and> ret (install_listener manifest_unreachable []) = Fulfilled
   \<and> store (install_listener manifest_unreachable []) = [(CACHE_NAME, [])]"
  by (simp add: install_listener_def install_catch_def cache_addAll_def manifest_unreachable_def
      ASSETS_TO_CACHE_def resolve_def startsWith_def caches_open_def caches_keys_def Let_def)

text \<open>A seed resource answered with the status 206 fails the precaching as well.\<close>

lemma install_partial_content:
  "install_listener
     \<lparr>origin = ''https://app.example'',
      network = (\<lambda>u. Some \<lparr>body = ''part'', status = 206, statusText = ''Partial Content''\<rparr>),
      open_ok = True, put_ok = True\<rparr> []
   = \<lparr>ret = Fulfilled, store = [(CACHE_NAME, [])],
      trace = map NetFetch (map (resolve ''https://app.example'') ASSETS_TO_CACHE)\<rparr>"
  by (simp add: install_listener_def install_catch_def cache_addAll_def response_ok_def
      caches_open_def caches_keys_def ASSETS_TO_CACHE_def Let_def)

subsection \<open>Control messages\<close>

text \<open>
  C7, as stated, fails: the listener compares the message type with \<^verbatim>\<open>CLEAR_CACHE\<close>,
  and a message of the type \<^verbatim>\<open>clear-cache\<close> leaves the cache as it is.
\<close>

theorem C7_clear_cache_counterexample:
  "caches_match (store (message_listener (Some \<lparr>msg_type = ''clear-cache''\<rparr>)
                   [(CACHE_NAME, [(''https://app.example/index.html'', shell)])]))
     ''https://app.example/index.html'' = Some shell"
  by (simp add: message_listener_def data_type_is_def)

text \<open>
  C7, amended. A message of the type \<^verbatim>\<open>CLEAR_CACHE\<close> deletes the current cache
  generation: no cache of the name CACHE_NAME remains, and, the current generation being
  the only cache (as it is after activation), every read of the cache storage finds
  nothing.
\<close>

theorem C7_CLEAR_CACHE_empties:
  assumes "data_type_is d ''CLEAR_CACHE''"
  shows "CACHE_NAME \<notin> set (caches_keys (store (message_listener d cs)))
       \<and> (set (caches_keys cs) \<subseteq> {CACHE_NAME}
            \<longrightarrow> (\<forall>u. caches_match (store (message_listener d cs)) u = None))"
proof -
  have s: "store (message_listener d cs) = caches_delete CACHE_NAME cs"
    using assms by (simp add: message_listener_def)
  have gone: "CACHE_NAME \<notin> set (caches_keys (caches_delete CACHE_NAME cs))"
    by (auto simp: caches_delete_def caches_keys_def)
  have "caches_delete CACHE_NAME cs = []" if "set (caches_keys cs) \<subseteq> {CACHE_NAME}"
    using that by (auto simp: caches_delete_def caches_keys_def filter_empty_conv)
  with s gone show ?thesis by simp
qed

theorem C7_CLEAR_CACHE_empties_witness:
  "data_type_is (Some \<lparr>msg_type = ''CLEAR_CACHE''\<rparr>) ''CLEAR_CACHE''
   \<and> set (caches_keys [(CACHE_NAME, [(''https://app.example/index.html'', shell)])]) \<subseteq> {CACHE_NAME}
   \<and> caches_match (store (message_listener (Some \<lparr>msg_type = ''CLEAR_CACHE''\<rparr>)
                     [(CACHE_NAME, [(''https://app.example/index.html'', shell)])]))
       ''https://app.example/index.html'' = None"
proof -
  have t: "data_type_is (Some \<lparr>msg_type = ''CLEAR_CACHE''\<rparr>) ''CLEAR_CACHE''"
    by (simp add: data_type_is_def)
  have k: "set (caches_keys [(CACHE_NAME, [(''https://app.example/index.html'', shell)])]) \<subseteq> {CACHE_NAME}"
    by (simp add: caches_keys_def)
  show ?thesis
    using t k C7_CLEAR_CACHE_empties [OF t, of "[(CACHE_NAME, [(''https://app.example/index.html'', shell)])]"]
    by simp
qed

text \<open>A later fetch of an eligible URL creates the generation again and fills it.\<close>

lemma repopulated_by_fetch:
  "caches_match (store (fetch_listener online [] (get ''https://app.example/a.js'' ''no-cors'')))
     ''https://app.example/a.js'' = Some fresh"
  by (simp add: fetch_listener_def pipeline_def fetchAndCache_def online_def get_def fresh_def
      startsWith_def eligible_def caches_open_def caches_keys_def cache_put_def
      without_fragment_def Let_def)

subsection \<open>Failures of the cache write\<close>

text \<open>A rejected \<^verbatim>\<open>cache.put\<close> changes neither what \<open>fetchAndCache\<close> nor what the listener returns.\<close>

lemma put_failure_harmless:
  "ret (fetchAndCache (e\<lparr>put_ok := False\<rparr>) cs req) = ret (fetchAndCache e cs req)"
  by (simp add: fetchAndCache_def Let_def split: option.split)

lemma put_failure_harmless_listener:
  "ret (fetch_listener (e\<lparr>put_ok := False\<rparr>) cs req) = ret (fetch_listener e cs req)"
proof (cases "ret (pipeline e cs req)")
  case (Inl err)
  then have "ret (pipeline (e\<lparr>put_ok := False\<rparr>) cs req) = Inl err"
    by (simp add: pipeline_def put_failure_harmless Let_def split: option.splits)
  with Inl show ?thesis
    by (simp add: fetch_listener_def Let_def pipeline_failure_keeps_store)
next
  case (Inr r)
  then have "ret (pipeline (e\<lparr>put_ok := False\<rparr>) cs req) = Inr r"
    by (simp add: pipeline_def put_failure_harmless Let_def split: option.splits)
  with Inr show ?thesis
    by (simp add: fetch_listener_def Let_def)
qed

text \<open>
  C8. The claim does not hold of the code when it is \<^verbatim>\<open>caches.open\<close> that fails: the
  call is awaited inside the \<^verbatim>\<open>try\<close> block, so its rejection is handled as if the
  network had failed. The network answers with status 200, nothing is cached for the
  request, and the caller receives the synthesized 408 response instead of the network's.
\<close>

theorem C8_open_failure_discards_response:
  "network storage_unavailable ''https://app.example/data.json'' = Some fresh
   \<and> status fresh = 200
   \<and> ret (fetchAndCache storage_unavailable [] (get ''https://app.example/data.json'' ''cors''))
       = Inl CacheOpenError
   \<and> ret (fetch_listener storage_unavailable [] (get ''https://app.example/data.json'' ''cors''))
       = Responded (Some \<lparr>body = '''', status = 408, statusText = ''Offline''\<rparr>)"
  by (simp add: storage_unavailable_def fresh_def fetchAndCache_def fetchAndCache_catch_def
      fetch_listener_def pipeline_def get_def startsWith_def offline_response_def)

subsection \<open>Notifications\<close>

lemma find_append_first:
  "\<forall>y \<in> set ys. \<not> P y \<Longrightarrow> P x \<Longrightarrow> find P (ys @ x # zs) = Some x"
  by (induction ys) auto

lemma find_first_split:
  assumes "\<exists>c \<in> set xs. P c"
  shows "\<exists>pre c post. xs = pre @ c # post \<and> (\<forall>x \<in> set pre. \<not> P x) \<and> P c \<and> find P xs = Some c"
proof -
  from split_list_first_prop [OF assms]
  obtain pre c post where s: "xs = pre @ c # post" "P c" "\<forall>x \<in> set pre. \<not> P x"
    by blast
  then have "find P xs = Some c"
    by (simp add: find_append_first)
  with s show ?thesis by blast
qed

text \<open>
  C9, as stated, fails in its last part: after a push whose payload has the url
  \<^verbatim>\<open>/session\<close>, a click with the action open, while a window of the app shows
  \<^verbatim>\<open>/stats\<close>, focuses that window and does not navigate it; no page at \<^verbatim>\<open>/session\<close>
  is focused or opened.
\<close>

theorem C9_focus_not_at_session_counterexample:
  "push_listener (Some (Json (JsonObject
       [(''title'', ''Reminder''), (''body'', ''Study now''), (''url'', ''/session'')])))
     = (Inr (),
        [ShowNotification ''Reminder''
           \<lparr>opt_body = ''Study now'', opt_icon = ''/icon-192.png'',
            opt_badge = ''/icon-192.png'', opt_vibrate = [100, 50, 100],
            opt_data_url = ''/session'',
            opt_actions = [(''open'', ''Open App''), (''dismiss'', ''Dismiss'')]\<rparr>,
         WaitUntil])
   \<and> notificationclick_listener ''https://app.example'' True [''https://app.example/stats'']
        (clicked ''open''
           \<lparr>opt_body = ''Study now'', opt_icon = ''/icon-192.png'',
            opt_badge = ''/icon-192.png'', opt_vibrate = [100, 50, 100],
            opt_data_url = ''/session'',
            opt_actions = [(''open'', ''Open App''), (''dismiss'', ''Dismiss'')]\<rparr>)
     = (Some Fulfilled,
        [NotificationClose, WaitUntil, ClientFocus ''https://app.example/stats''])"
  by (simp add: push_listener_def json_def property_def or_default_def
      notificationclick_listener_def clicked_def)

text \<open>
  C9, amended. For a click whose action is open or empty the first call closes the
  notification. If some window client's URL contains the worker's origin, the listener
  focuses the first such client, whatever page it shows. If none does and
  \<^verbatim>\<open>clients.openWindow\<close> is defined, it opens a window at the notification's
  \<^verbatim>\<open>data.url\<close>, or at \<^verbatim>\<open>/\<close> when the url is missing or empty; when the notification
  has no data object, the promise is rejected with a TypeError and nothing is opened. If
  none does and \<^verbatim>\<open>clients.openWindow\<close> is not defined, nothing more happens. In
  particular, after a push whose payload has the url \<^verbatim>\<open>/session\<close>, a click with the
  action open on the notification shown focuses the first client of the app's origin, or,
  when there is none and \<^verbatim>\<open>clients.openWindow\<close> is defined, opens a window at
  \<^verbatim>\<open>/session\<close>.
\<close>

theorem C9_notificationclick_open:
  assumes "action ev = ''open'' \<or> action ev = ''''"
  shows "hd (snd (notificationclick_listener org ow clientList ev)) = NotificationClose
       \<and> ((\<exists>c \<in> set clientList. includes_str c org) \<longrightarrow>
            (\<exists>pre c post. clientList = pre @ c # post
               \<and> (\<forall>x \<in> set pre. \<not> includes_str x org) \<and> includes_str c org
               \<and> notificationclick_listener org ow clientList ev
                   = (Some Fulfilled, [NotificationClose, WaitUntil, ClientFocus c])))
       \<and> ((\<forall>c \<in> set clientList. \<not> includes_str c org) \<and> ow \<longrightarrow>
            (\<forall>u. ndata ev = Data u \<longrightarrow>
               notificationclick_listener org ow clientList ev
                 = (Some Fulfilled, [NotificationClose, WaitUntil, OpenWindow (or_default u ''/'')]))
            \<and> (ndata ev = NoData \<longrightarrow>
                 notificationclick_listener org ow clientList ev
                   = (Some (Rejected TypeError), [NotificationClose, WaitUntil])))
       \<and> ((\<forall>c \<in> set clientList. \<not> includes_str c org) \<and> \<not> ow \<longrightarrow>
            notificationclick_listener org ow clientList ev
              = (Some Fulfilled, [NotificationClose, WaitUntil]))
       \<and> (\<forall>props. map_of props ''url'' = Some ''/session'' \<longrightarrow>
            (\<exists>title opts.
               push_listener (Some (Json (JsonObject props)))
                 = (Inr (), [ShowNotification title opts, WaitUntil])
               \<and> ((\<exists>c \<in> set clientList. includes_str c org) \<longrightarrow>
                    (\<exists>pre c post. clientList = pre @ c # post
                       \<and> (\<forall>x \<in> set pre. \<not> includes_str x org) \<and> includes_str c org
                       \<and> notificationclick_listener org ow clientList (clicked ''open'' opts)
                           = (Some Fulfilled, [NotificationClose, WaitUntil, ClientFocus c])))
               \<and> ((\<forall>c \<in> set clientList. \<not> includes_str c org) \<and> ow \<longrightarrow>
                    notificationclick_listener org ow clientList (clicked ''open'' opts)
                      = (Some Fulfilled, [NotificationClose, WaitUntil, OpenWindow ''/session'']))))"
proof -
  let ?P = "\<lambda>c. includes_str c org"
  have 1: "hd (snd (notificationclick_listener org ow clientList ev)) = NotificationClose"
    by (simp add: notificationclick_listener_def split: option.split notification_data.split)
  have focus: "\<exists>pre c post. clientList = pre @ c # post
               \<and> (\<forall>x \<in> set pre. \<not> includes_str x org) \<and> includes_str c org
               \<and> notificationclick_listener org ow clientList ev'
                   = (Some Fulfilled, [NotificationClose, WaitUntil, ClientFocus c])"
    if m: "\<exists>c \<in> set clientList. includes_str c org"
      and a: "action ev' = ''open'' \<or> action ev' = ''''" for ev'
  proof -
    from find_first_split [of clientList ?P, OF m]
    obtain pre c post where s: "clientList = pre @ c # post"
      "\<forall>x \<in> set pre. \<not> includes_str x org" "includes_str c org" "find ?P clientList = Some c"
      by blast
    have "notificationclick_listener org ow clientList ev'
            = (Some Fulfilled, [NotificationClose, WaitUntil, ClientFocus c])"
      using a s(4) by (auto simp: notificationclick_listener_def)
    with s show ?thesis by blast
  qed
  have none: "find ?P clientList = None" if "\<forall>c \<in> set clientList. \<not> includes_str c org"
    using that by (simp add: find_None_iff)
  have opens: "notificationclick_listener org ow clientList ev'
              = (Some Fulfilled, [NotificationClose, WaitUntil, OpenWindow (or_default u ''/'')])"
    if "\<forall>c \<in> set clientList. \<not> includes_str c org" and "ow"
      and "action ev' = ''open'' \<or> action ev' = ''''" and "ndata ev' = Data u" for ev' u
    using that none by (auto simp: notificationclick_listener_def)
  have throws: "notificationclick_listener org ow clientList ev
              = (Some (Rejected TypeError), [NotificationClose, WaitUntil])"
    if "\<forall>c \<in> set clientList. \<not> includes_str c org" and "ow" and "ndata ev = NoData"
    using that none assms by (auto simp: notificationclick_listener_def)
  have idle: "notificationclick_listener org ow clientList ev
              = (Some Fulfilled, [NotificationClose, WaitUntil])"
    if "\<forall>c \<in> set clientList. \<not> includes_str c org" and "\<not> ow"
    using that none assms by (auto simp: notificationclick_listener_def)
  have session: "\<exists>title opts.
               push_listener (Some (Json (JsonObject props)))
                 = (Inr (), [ShowNotification title opts, WaitUntil])
               \<and> ((\<exists>c \<in> set clientList. includes_str c org) \<longrightarrow>
                    (\<exists>pre c post. clientList = pre @ c # post
                       \<and> (\<forall>x \<in> set pre. \<not> includes_str x org) \<and> includes_str c org
                       \<and> notificationclick_listener org ow clientList (clicked ''open'' opts)
                           = (Some Fulfilled, [NotificationClose, WaitUntil, ClientFocus c])))
               \<and> ((\<forall>c \<in> set clientList. \<not> includes_str c org) \<and> ow \<longrightarrow>
                    notificationclick_listener org ow clientList (clicked ''open'' opts)
                      = (Some Fulfilled, [NotificationClose, WaitUntil, OpenWindow ''/session'']))"
    if u: "map_of props ''url'' = Some ''/session''" for props
  proof -
    let ?opts = "\<lparr>opt_body = or_default (map_of props ''body'') ''Time to study!'',
                  opt_icon = ''/icon-192.png'', opt_badge = ''/icon-192.png'',
                  opt_vibrate = [100, 50, 100], opt_data_url = ''/session'',
                  opt_actions = [(''open'', ''Open App''), (''dismiss'', ''Dismiss'')]\<rparr>"
    have p: "push_listener (Some (Json (JsonObject props)))
        = (Inr (), [ShowNotification (or_default (map_of props ''title'') ''Solo Leveling System'') ?opts,
                    WaitUntil])"
      using u by (simp add: push_listener_def json_def property_def or_default_def)
    have a: "action (clicked ''open'' ?opts) = ''open'' \<or> action (clicked ''open'' ?opts) = ''''"
      by (simp add: clicked_def)
    have d: "ndata (clicked ''open'' ?opts) = Data (Some ''/session'')"
      by (simp add: clicked_def)
    have o: "or_default (Some ''/session'') ''/'' = ''/session''"
      by (simp add: or_default_def)
    have f: "(\<exists>c \<in> set clientList. includes_str c org) \<longrightarrow>
                    (\<exists>pre c post. clientList = pre @ c # post
                       \<and> (\<forall>x \<in> set pre. \<not> includes_str x org) \<and> includes_str c org
                       \<and> notificationclick_listener org ow clientList (clicked ''open'' ?opts)
                           = (Some Fulfilled, [NotificationClose, WaitUntil, ClientFocus c]))"
      using focus [OF _ a] by blast
    have w: "(\<forall>c \<in> set clientList. \<not> includes_str c org) \<and> ow \<longrightarrow>
                    notificationclick_listener org ow clientList (clicked ''open'' ?opts)
                      = (Some Fulfilled, [NotificationClose, WaitUntil, OpenWindow ''/session''])"
      using opens [OF _ _ a d] o by simp
    from p f w show ?thesis by blast
  qed
  have 2: "(\<exists>c \<in> set clientList. includes_str c org) \<longrightarrow>
            (\<exists>pre c post. clientList = pre @ c # post
               \<and> (\<forall>x \<in> set pre. \<not> includes_str x org) \<and> includes_str c org
               \<and> notificationclick_listener org ow clientList ev
                   = (Some Fulfilled, [NotificationClose, WaitUntil, ClientFocus c]))"
    using focus [OF _ assms] by blast
  have 3: "(\<forall>c \<in> set clientList. \<not> includes_str c org) \<and> ow \<longrightarrow>
            (\<forall>u. ndata ev = Data u \<longrightarrow>
               notificationclick_listener org ow clientList ev
                 = (Some Fulfilled, [NotificationClose, WaitUntil, OpenWindow (or_default u ''/'')]))
            \<and> (ndata ev = NoData \<longrightarrow>
                 notificationclick_listener org ow clientList ev
                   = (Some (Rejected TypeError), [NotificationClose, WaitUntil]))"
    using opens [OF _ _ assms] throws by blast
  have 4: "(\<forall>c \<in> set clientList. \<not> includes_str c org) \<and> \<not> ow \<longrightarrow>
            notificationclick_listener org ow clientList ev
              = (Some Fulfilled, [NotificationClose, WaitUntil])"
  proof (intro impI, elim conjE)
    assume a: "\<forall>c \<in> set clientList. \<not> includes_str c org" and b: "\<not> ow"
    from idle [OF a b]
    show "notificationclick_listener org ow clientList ev
              = (Some Fulfilled, [NotificationClose, WaitUntil])" .
  qed
  from 1 2 3 4 session show ?thesis
    by (intro conjI allI impI; blast)
qed

theorem C9_notificationclick_open_witness:
  "(action \<lparr>action = ''open'', ndata = Data (Some ''/session'')\<rparr> = ''open'')
   \<and> notificationclick_listener ''https://app.example'' True []
        \<lparr>action = ''open'', ndata = Data (Some ''/session'')\<rparr>
       = (Some Fulfilled, [NotificationClose, WaitUntil, OpenWindow ''/session''])
   \<and> notificationclick_listener ''https://app.example'' True []
        \<lparr>action = ''open'', ndata = NoData\<rparr>
       = (Some (Rejected TypeError), [NotificationClose, WaitUntil])
   \<and> notificationclick_listener ''https://app.example'' False []
        \<lparr>action = ''open'', ndata = Data (Some ''/session'')\<rparr>
       = (Some Fulfilled, [NotificationClose, WaitUntil])
   \<and> (\<exists>c \<in> set [''https://app.example/stats'']. includes_str c ''https://app.example'')
   \<and> (\<exists>c. notificationclick_listener ''https://app.example'' True [''https://app.example/stats'']
              \<lparr>action = '''', ndata = Data (Some ''/session'')\<rparr>
            = (Some Fulfilled, [NotificationClose, WaitUntil, ClientFocus c]))
   \<and> map_of [(''url'', ''/session'')] ''url'' = Some ''/session''
   \<and> (\<exists>title opts.
         push_listener (Some (Json (JsonObject [(''url'', ''/session'')])))
           = (Inr (), [ShowNotification title opts, WaitUntil])
         \<and> notificationclick_listener ''https://app.example'' True [] (clicked ''open'' opts)
             = (Some Fulfilled, [NotificationClose, WaitUntil, OpenWindow ''/session'']))"
proof -
  have m: "\<exists>c \<in> set [''https://app.example/stats'']. includes_str c ''https://app.example''"
    by simp
  have a1: "action \<lparr>action = ''open'', ndata = Data (Some ''/session'')\<rparr> = ''open''
            \<or> action \<lparr>action = ''open'', ndata = Data (Some ''/session'')\<rparr> = ''''"
    by simp
  have a2: "action \<lparr>action = ''open'', ndata = NoData\<rparr> = ''open''
            \<or> action \<lparr>action = ''open'', ndata = NoData\<rparr> = ''''"
    by simp
  have a3: "action \<lparr>action = '''', ndata = Data (Some ''/session'')\<rparr> = ''open''
            \<or> action \<lparr>action = '''', ndata = Data (Some ''/session'')\<rparr> = ''''"
    by simp
  have o: "or_default (Some ''/session'') ''/'' = ''/session''"
    by (simp add: or_default_def)
  have focus: "\<exists>c. notificationclick_listener ''https://app.example'' True [''https://app.example/stats'']
              \<lparr>action = '''', ndata = Data (Some ''/session'')\<rparr>
            = (Some Fulfilled, [NotificationClose, WaitUntil, ClientFocus c])"
    using m C9_notificationclick_open [OF a3, of "''https://app.example''" True "[''https://app.example/stats'']"]
    by blast
  have u: "map_of [(''url'', ''/session'')] ''url'' = Some ''/session''"
    by simp
  have e: "\<forall>c \<in> set ([] :: string list). \<not> includes_str c ''https://app.example''"
    by simp
  have session: "\<exists>title opts.
         push_listener (Some (Json (JsonObject [(''url'', ''/session'')])))
           = (Inr (), [ShowNotification title opts, WaitUntil])
         \<and> notificationclick_listener ''https://app.example'' True [] (clicked ''open'' opts)
             = (Some Fulfilled, [NotificationClose, WaitUntil, OpenWindow ''/session''])"
    using u e C9_notificationclick_open [OF a1, of "''https://app.example''" True "[]"]
    by blast
  show ?thesis
    using m focus o u session
      C9_notificationclick_open [OF a1, of "''https://app.example''" True "[]"]
      C9_notificationclick_open [OF a2, of "''https://app.example''" True "[]"]
      C9_notificationclick_open [OF a1, of "''https://app.example''" False "[]"]
    by simp
qed

text \<open>A click with the action dismiss closes the notification and does nothing else.\<close>

lemma dismiss_only_closes:
  "notificationclick_listener org ow clientList \<lparr>action = ''dismiss'', ndata = d\<rparr>
     = (None, [NotificationClose])"
  by (simp add: notificationclick_listener_def)

text \<open>
  C10. On a payload that is not JSON the push listener throws the SyntaxError of
  \<^verbatim>\<open>event.data.json()\<close> and has made no platform call: nothing was handed to
  \<^verbatim>\<open>event.waitUntil\<close> and no notification was shown. A payload that is JSON and lacks
  the optional properties is shown with the defaults.
\<close>

theorem C10_malformed_push_throws:
  "push_listener (Some NotJson) = (Inl SyntaxError, [])
   \<and> WaitUntil \<notin> set (snd (push_listener (Some NotJson)))
   \<and> push_listener (Some (Json (JsonObject [])))
       = (Inr (),
          [ShowNotification ''Solo Leveling System''
             \<lparr>opt_body = ''Time to study!'', opt_icon = ''/icon-192.png'',
              opt_badge = ''/icon-192.png'', opt_vibrate = [100, 50, 100], opt_data_url = ''/'',
              opt_actions = [(''open'', ''Open App''), (''dismiss'', ''Dismiss'')]\<rparr>,
           WaitUntil])"
  by (simp add: push_listener_def json_def property_def or_default_def)

end
